theory Spec2Isabelle
  imports Main "HOL-Library.Word"
begin

unbundle bit_operations_syntax

section \<open>Strings, bytes and errors\<close>

text \<open>
  A JavaScript string is modelled by the sequence of its UTF-8 code units, one \<open>char\<close>
  each, so that \<open>TextEncoder.encode\<close> maps every unit to its byte and
  \<open>Buffer.byteLength\<close> is the length of the encoding. Header names, header values and
  methods are ASCII; case conversion acts on the letters A-Z / a-z only.
\<close>

type_synonym byte = "8 word"
type_synonym bytes = "byte list"

datatype error = TypeError string | Error string | RangeError string

definition encode :: "string \<Rightarrow> bytes" where
  "encode s = map (\<lambda>c. of_nat (of_char c)) s"

definition byteLength :: "string \<Rightarrow> nat" where
  "byteLength s = length (encode s)"

definition upper_letters :: string where
  "upper_letters = ''ABCDEFGHIJKLMNOPQRSTUVWXYZ''"

definition lower_letters :: string where
  "lower_letters = ''abcdefghijklmnopqrstuvwxyz''"

definition lower_char :: "char \<Rightarrow> char" where
  "lower_char c = (case map_of (zip upper_letters lower_letters) c of Some d \<Rightarrow> d | None \<Rightarrow> c)"

definition upper_char :: "char \<Rightarrow> char" where
  "upper_char c = (case map_of (zip lower_letters upper_letters) c of Some d \<Rightarrow> d | None \<Rightarrow> c)"

definition toLowerCase :: "string \<Rightarrow> string" where
  "toLowerCase s = map lower_char s"

definition toUpperCase :: "string \<Rightarrow> string" where
  "toUpperCase s = map upper_char s"

fun join :: "string \<Rightarrow> string list \<Rightarrow> string" where
  "join sep [] = []"
| "join sep [x] = x"
| "join sep (x # y # ys) = x @ sep @ join sep (y # ys)"

section \<open>The host's Headers container\<close>

text \<open>
  \<open>Headers\<close> is the platform class of the Fetch standard: an ordered list of
  (lower-cased name, value) entries. \<open>set\<close> overwrites the first entry of the name and
  removes the others, or appends a new entry; \<open>append\<close> always adds an entry; \<open>get\<close>
  joins the values of a name with a comma and a space. Names and values are taken as the
  HTTP parser delivers them: valid tokens, values without surrounding white space.
\<close>

type_synonym headers = "(string \<times> string) list"

fun headers_set_at :: "string \<Rightarrow> string \<Rightarrow> headers \<Rightarrow> headers" where
  "headers_set_at k v [] = [(k, v)]"
| "headers_set_at k v ((k', v') # hs) =
     (if k' = k then (k, v) # filter (\<lambda>e. fst e \<noteq> k) hs
      else (k', v') # headers_set_at k v hs)"

definition headers_set :: "string \<Rightarrow> string \<Rightarrow> headers \<Rightarrow> headers" where
  "headers_set name v hs = headers_set_at (toLowerCase name) v hs"

definition headers_append :: "string \<Rightarrow> string \<Rightarrow> headers \<Rightarrow> headers" where
  "headers_append name v hs = hs @ [(toLowerCase name, v)]"

definition headers_values :: "string \<Rightarrow> headers \<Rightarrow> string list" where
  "headers_values name hs = map snd (filter (\<lambda>e. fst e = toLowerCase name) hs)"

definition headers_get :: "headers \<Rightarrow> string \<Rightarrow> string option" where
  "headers_get hs name =
     (case headers_values name hs of [] \<Rightarrow> None | v # vs \<Rightarrow> Some (join '', '' (v # vs)))"

definition headers_has :: "headers \<Rightarrow> string \<Rightarrow> bool" where
  "headers_has hs name = (headers_values name hs \<noteq> [])"

definition headers_delete :: "string \<Rightarrow> headers \<Rightarrow> headers" where
  "headers_delete name hs = filter (\<lambda>e. fst e \<noteq> toLowerCase name) hs"

section \<open>fetch.ts: header adapter\<close>

text \<open>
  \<open>headersOfRawHeaders\<close> walks the flat list two slots at a time and calls \<open>set\<close>. A
  list of odd length reads \<open>undefined\<close> in the last value slot, which \<open>set\<close> stores as
  the string \<open>undefined\<close>.
\<close>

fun rawHeaders_loop :: "string list \<Rightarrow> headers \<Rightarrow> headers" where
  "rawHeaders_loop [] hs = hs"
| "rawHeaders_loop [k] hs = headers_set k ''undefined'' hs"
| "rawHeaders_loop (k # v # rest) hs = rawHeaders_loop rest (headers_set k v hs)"

definition headersOfRawHeaders :: "string list \<Rightarrow> headers" where
  "headersOfRawHeaders rawHeaders = rawHeaders_loop rawHeaders []"

text \<open>The flat list \<open>[k0, v0, k1, v1, ...]\<close> of a list of pairs.\<close>

fun rawOfPairs :: "(string \<times> string) list \<Rightarrow> string list" where
  "rawOfPairs [] = []"
| "rawOfPairs ((k, v) # ps) = k # v # rawOfPairs ps"

text \<open>The pairs of a raw list whose key equals \<open>name\<close> up to case, in list order.\<close>

definition occurrences :: "string \<Rightarrow> (string \<times> string) list \<Rightarrow> (string \<times> string) list" where
  "occurrences name ps = filter (\<lambda>p. toLowerCase (fst p) = toLowerCase name) ps"

section \<open>encoding.ts: content decoder\<close>

text \<open>
  \<open>InflateStream\<close> holds the inner decoder in \<open>_inflate\<close>, created on the first
  non-empty chunk: \<open>zlib.createInflate\<close> or \<open>zlib.createInflateRaw\<close>. The model
  records which one was created and the chunks written to it.
\<close>

datatype inflate = Inflate | InflateRaw

record inflate_stream =
  inflate :: "inflate option"
  written :: "bytes list"
  ended :: bool

definition InflateStream_new :: inflate_stream where
  "InflateStream_new = \<lparr>inflate = None, written = [], ended = False\<rparr>"

definition InflateStream_transform :: "bytes \<Rightarrow> inflate_stream \<Rightarrow> inflate_stream" where
  "InflateStream_transform chunk s =
     (case inflate s of
        None \<Rightarrow>
          (case chunk of
             [] \<Rightarrow> s
           | b # _ \<Rightarrow>
               s\<lparr>inflate := Some (if b AND 0x0f = 0x08 then Inflate else InflateRaw),
                 written := written s @ [chunk]\<rparr>)
      | Some _ \<Rightarrow> s\<lparr>written := written s @ [chunk]\<rparr>)"

definition InflateStream_final :: "inflate_stream \<Rightarrow> inflate_stream" where
  "InflateStream_final s =
     (case inflate s of
        Some _ \<Rightarrow> s\<lparr>inflate := None, ended := True\<rparr>
      | None \<Rightarrow> s)"

datatype decoder = BrotliDecompress | Gunzip | InflateStream | PassThrough

definition createContentDecoder :: "string \<Rightarrow> decoder" where
  "createContentDecoder encoding =
     (if encoding = ''br'' then BrotliDecompress
      else if encoding = ''gzip'' \<or> encoding = ''x-gzip'' then Gunzip
      else if encoding = ''deflate'' \<or> encoding = ''x-deflate'' then InflateStream
      else PassThrough)"

text \<open>The first byte of the first non-empty chunk of a chunk sequence, if there is one.\<close>

fun first_byte :: "bytes list \<Rightarrow> byte option" where
  "first_byte [] = None"
| "first_byte ([] # cs) = first_byte cs"
| "first_byte ((b # _) # _) = Some b"

section \<open>body.ts: body extraction and multipart encoding\<close>

text \<open>
  A \<open>Blob\<close> or \<open>File\<close> is its \<open>name\<close> (absent on a plain Blob), its \<open>type\<close>, the
  \<open>size\<close> it reports and the chunks its \<open>stream()\<close> yields. A stream is the list of
  chunks it yields until it ends.
\<close>

record blob =
  blob_name :: "string option"
  blob_type :: string
  blob_size :: nat
  blob_stream :: "bytes list"

datatype form_value = FieldString string | FieldBlob blob

type_synonym form_data = "(string \<times> form_value) list"

record form_data_polyfill =
  getBoundary :: string
  hasKnownLength :: bool
  getLengthSync :: nat
  polyfill_stream :: "bytes list"

text \<open>
  The body inputs, one constructor per branch of \<open>extractBody\<close> in the order of its
  tests; \<open>IsURLSearchParameters\<close> carries the result of \<open>toString()\<close>, \<open>IsView\<close> the
  underlying buffer with \<open>byteOffset\<close> and \<open>byteLength\<close>, \<open>IsOther\<close> the default
  stringification of the value.
\<close>

datatype body_init =
    IsString string
  | IsURLSearchParameters string
  | IsBlob blob
  | IsUint8Array bytes
  | IsAnyArrayBuffer bytes
  | IsView bytes nat nat
  | IsReadableStream "bytes list"
  | IsFormData form_data
  | IsMultipartFormDataStream form_data_polyfill
  | IsReadable "bytes list"
  | IsIterable "bytes list"
  | IsOther string

datatype body = Uint8Array bytes | WebStream "bytes list" | NodeStream "bytes list"

record body_state =
  contentLength :: "nat option"
  contentType :: "string option"
  body :: "body option"

definition CRLF :: string where
  "CRLF = [CHR 0x0D, CHR 0x0A]"

definition CRLF_LENGTH :: nat where
  "CRLF_LENGTH = 2"

definition BOUNDARY :: string where
  "BOUNDARY = concat (replicate 2 ''-'')"

definition dquote :: string where
  "dquote = [CHR 0x22]"

definition hex_digits :: string where
  "hex_digits = ''0123456789abcdef''"

definition hex_digit :: "nat \<Rightarrow> char" where
  "hex_digit n = hex_digits ! (n mod 16)"

definition toHex :: "bytes \<Rightarrow> string" where
  "toHex bs = concat (map (\<lambda>b. [hex_digit (unat b div 16), hex_digit (unat b mod 16)]) bs)"

text \<open>\<open>randomBytes(n)\<close> reads \<open>n\<close> bytes from the system's entropy source \<open>src\<close>.\<close>

definition randomBytes :: "(nat \<Rightarrow> byte) \<Rightarrow> nat \<Rightarrow> bytes" where
  "randomBytes src n = map src [0..<n]"

definition makeFormBoundary :: "(nat \<Rightarrow> byte) \<Rightarrow> string" where
  "makeFormBoundary src = ''formdata-'' @ toHex (randomBytes src 8)"

definition getFormHeader :: "string \<Rightarrow> string \<Rightarrow> form_value \<Rightarrow> string" where
  "getFormHeader boundary name field =
     (let header = BOUNDARY @ boundary @ CRLF;
          header = header @ ''Content-Disposition: form-data; name='' @ dquote @ name @ dquote;
          header =
            (case field of
               FieldBlob b \<Rightarrow>
                 header @ ''; filename='' @ dquote
                   @ (case blob_name b of Some n \<Rightarrow> n | None \<Rightarrow> ''blob'') @ dquote @ CRLF
                   @ ''Content-Type: ''
                   @ (if blob_type b \<noteq> [] then blob_type b else ''application/octet-stream'')
             | FieldString _ \<Rightarrow> header)
      in header @ CRLF @ CRLF)"

definition getFormFooter :: "string \<Rightarrow> string" where
  "getFormFooter boundary = BOUNDARY @ boundary @ BOUNDARY @ CRLF @ CRLF"

definition getFormDataLength :: "form_data \<Rightarrow> string \<Rightarrow> nat" where
  "getFormDataLength form boundary =
     foldl (\<lambda>len (name, v).
         len + (byteLength (getFormHeader boundary name v)
           + (case v of FieldBlob b \<Rightarrow> blob_size b | FieldString s \<Rightarrow> byteLength s)
           + CRLF_LENGTH))
       (byteLength (getFormFooter boundary)) form"

fun generatorOfFormData :: "form_data \<Rightarrow> string \<Rightarrow> bytes list" where
  "generatorOfFormData [] boundary = [encode (getFormFooter boundary)]"
| "generatorOfFormData ((name, v) # form) boundary =
     (case v of
        FieldBlob b \<Rightarrow>
          encode (getFormHeader boundary name v) # blob_stream b @ [encode CRLF]
      | FieldString s \<Rightarrow> [encode (getFormHeader boundary name v @ s @ CRLF)])
     @ generatorOfFormData form boundary"

definition extractBody :: "(nat \<Rightarrow> byte) \<Rightarrow> body_init option \<Rightarrow> body_state" where
  "extractBody src object =
     (case object of
        None \<Rightarrow> \<lparr>contentLength = Some 0, contentType = None, body = None\<rparr>
      | Some (IsString s) \<Rightarrow>
          (let bytes = encode s
           in \<lparr>contentLength = Some (length bytes),
               contentType = Some ''text/plain;charset=UTF-8'',
               body = Some (Uint8Array bytes)\<rparr>)
      | Some (IsURLSearchParameters s) \<Rightarrow>
          (let bytes = encode s
           in \<lparr>contentLength = Some (length bytes),
               contentType = Some ''application/x-www-form-urlencoded;charset=UTF-8'',
               body = Some (Uint8Array bytes)\<rparr>)
      | Some (IsBlob b) \<Rightarrow>
          \<lparr>contentLength = Some (blob_size b),
           contentType = (if blob_type b \<noteq> [] then Some (blob_type b) else None),
           body = Some (WebStream (blob_stream b))\<rparr>
      | Some (IsUint8Array bytes) \<Rightarrow>
          \<lparr>contentLength = Some (length bytes), contentType = None,
           body = Some (Uint8Array bytes)\<rparr>
      | Some (IsAnyArrayBuffer buf) \<Rightarrow>
          \<lparr>contentLength = Some (length buf), contentType = None,
           body = Some (Uint8Array buf)\<rparr>
      | Some (IsView buf byteOffset len) \<Rightarrow>
          (let bytes = take len (drop byteOffset buf)
           in \<lparr>contentLength = Some (length bytes), contentType = None,
               body = Some (Uint8Array bytes)\<rparr>)
      | Some (IsReadableStream chunks) \<Rightarrow>
          \<lparr>contentLength = None, contentType = None, body = Some (WebStream chunks)\<rparr>
      | Some (IsFormData form) \<Rightarrow>
          (let boundary = makeFormBoundary src
           in \<lparr>contentLength = Some (getFormDataLength form boundary),
               contentType = Some (''multipart/form-data; boundary='' @ boundary),
               body = Some (NodeStream (generatorOfFormData form boundary))\<rparr>)
      | Some (IsMultipartFormDataStream p) \<Rightarrow>
          \<lparr>contentLength = (if hasKnownLength p then Some (getLengthSync p) else None),
           contentType = Some (''multipart/form-data; boundary='' @ getBoundary p),
           body = Some (NodeStream (polyfill_stream p))\<rparr>
      | Some (IsReadable chunks) \<Rightarrow>
          \<lparr>contentLength = None, contentType = None, body = Some (NodeStream chunks)\<rparr>
      | Some (IsIterable chunks) \<Rightarrow>
          \<lparr>contentLength = None, contentType = None, body = Some (NodeStream chunks)\<rparr>
      | Some (IsOther s) \<Rightarrow>
          (let bytes = encode s
           in \<lparr>contentLength = Some (length bytes),
               contentType = Some ''text/plain;charset=UTF-8'',
               body = Some (Uint8Array bytes)\<rparr>))"

text \<open>
  The bytes a body puts on the wire (the end of \<open>_call\<close> in fetch.ts): nothing for
  \<open>null\<close>, the array for a \<open>Uint8Array\<close>, every chunk of a piped stream.
\<close>

definition bytes_to_send :: "body option \<Rightarrow> bytes" where
  "bytes_to_send b =
     (case b of
        None \<Rightarrow> []
      | Some (Uint8Array bytes) \<Rightarrow> bytes
      | Some (WebStream chunks) \<Rightarrow> concat chunks
      | Some (NodeStream chunks) \<Rightarrow> concat chunks)"

text \<open>Every blob entry of the form reports the number of bytes its stream yields.\<close>

definition accurate_sizes :: "form_data \<Rightarrow> bool" where
  "accurate_sizes form =
     list_all (\<lambda>(name, v).
       case v of FieldBlob b \<Rightarrow> blob_size b = length (concat (blob_stream b))
       | FieldString _ \<Rightarrow> True) form"

definition is_hex16 :: "string \<Rightarrow> bool" where
  "is_hex16 h = (length h = 16 \<and> list_all (\<lambda>c. c \<in> set hex_digits) h)"

section \<open>fetch.ts: validation of the options\<close>

definition MAX_REDIRECTS :: nat where
  "MAX_REDIRECTS = 20"

definition squote :: string where
  "squote = [CHR 0x27]"

datatype redirect_mode = Follow | Manual | ErrorMode

definition toRedirectOption :: "string option \<Rightarrow> error + redirect_mode" where
  "toRedirectOption redirect =
     (case redirect of
        None \<Rightarrow> Inr Follow
      | Some r \<Rightarrow>
          if r = ''follow'' then Inr Follow
          else if r = ''manual'' then Inr Manual
          else if r = ''error'' then Inr ErrorMode
          else Inl (TypeError (''Request constructor: '' @ r
                 @ '' is not an accepted type. Expected one of follow, manual, error.'')))"

text \<open>
  \<open>methodToHttpOption\<close> compares the method as given with the three literals, and
  upper-cases it in the default branch; an absent or empty method is \<open>GET\<close>.
\<close>

definition methodToHttpOption :: "string option \<Rightarrow> error + string" where
  "methodToHttpOption method =
     (case method of
        None \<Rightarrow> Inr ''GET''
      | Some m \<Rightarrow>
          if m = ''CONNECT'' \<or> m = ''TRACE'' \<or> m = ''TRACK''
          then Inl (TypeError (''Failed to construct '' @ squote @ ''Request'' @ squote @ '': ''
                 @ squote @ m @ squote @ '' HTTP method is unsupported.''))
          else if m \<noteq> [] then Inr (toUpperCase m) else Inr ''GET'')"

text \<open>
  A parsed URL: its \<open>protocol\<close> (with the colon) and its serialisation. The host's URL
  parser is a parameter: \<open>parseURL input base\<close> is the result of \<open>new URL(input, base)\<close>,
  \<open>None\<close> when the constructor throws.
\<close>

record url =
  protocol :: string
  href :: string

type_synonym url_parser = "string \<Rightarrow> url option \<Rightarrow> url option"

definition urlToHttpOptions :: "url \<Rightarrow> error + url" where
  "urlToHttpOptions input =
     (if protocol input = ''http:'' \<or> protocol input = ''https:'' then Inr input
      else Inl (TypeError (''URL scheme '' @ dquote @ protocol input @ dquote
             @ '' is not supported.'')))"

definition isRedirectCode :: "nat \<Rightarrow> bool" where
  "isRedirectCode code =
     (code = 301 \<or> code = 302 \<or> code = 303 \<or> code = 307 \<or> code = 308)"

section \<open>fetch.ts: the request plan\<close>

type_synonym abort_signal = nat

datatype headers_init = HeadersPairs "(string \<times> string) list" | HeadersObject headers

definition Headers_new :: "headers_init option \<Rightarrow> headers" where
  "Headers_new init =
     (case init of
        None \<Rightarrow> []
      | Some (HeadersPairs ps) \<Rightarrow> foldl (\<lambda>hs (k, v). headers_append k v hs) [] ps
      | Some (HeadersObject hs) \<Rightarrow> hs)"

record request =
  request_url :: string
  request_body :: "body_init option"
  request_signal :: abort_signal
  request_redirect :: string
  request_method :: string
  request_headers :: headers

record request_init =
  init_method :: "string option"
  init_headers :: "headers_init option"
  init_body :: "body_init option"
  init_signal :: "abort_signal option"
  init_redirect :: "string option"

datatype fetch_input = IsURL string | IsRequest request

text \<open>The variables of \<open>_fetch\<close> that its inner function \<open>_call\<close> reads and updates.\<close>

record fetch_state =
  initBody :: "body_init option"
  signal :: "abort_signal option"
  redirect :: redirect_mode
  requestUrl :: url
  requestBody :: body_state
  redirects :: nat
  requestHeaders :: headers
  requestOptions_url :: url
  requestOptions_method :: string

text \<open>\<open>x || null\<close> on a body: the empty string is the only falsy body input.\<close>

definition or_null :: "body_init option \<Rightarrow> body_init option" where
  "or_null b = (case b of Some (IsString []) \<Rightarrow> None | _ \<Rightarrow> b)"

text \<open>
  The part of \<open>_fetch\<close> before the first \<open>_call\<close>, in the order of its statements;
  \<open>Inl\<close> is the rejection of the returned promise.
\<close>

definition fetch_prepare ::
  "url_parser \<Rightarrow> (nat \<Rightarrow> byte) \<Rightarrow> fetch_input \<Rightarrow> request_init option
    \<Rightarrow> error + fetch_state" where
  "fetch_prepare parseURL src input requestInit =
     (let initUrl = (case input of IsRequest r \<Rightarrow> request_url r | IsURL u \<Rightarrow> u);
          initBody' =
            (case input of
               IsRequest r \<Rightarrow> request_body r
             | IsURL _ \<Rightarrow> or_null (Option.bind requestInit init_body));
          signal' =
            (case input of
               IsRequest r \<Rightarrow> Some (request_signal r)
             | IsURL _ \<Rightarrow> Option.bind requestInit init_signal)
      in case toRedirectOption
            (case input of
               IsRequest r \<Rightarrow> Some (request_redirect r)
             | IsURL _ \<Rightarrow> Option.bind requestInit init_redirect) of
           Inl e \<Rightarrow> Inl e
         | Inr redirect' \<Rightarrow>
      (case parseURL initUrl None of
           None \<Rightarrow> Inl (TypeError ''Invalid URL'')
         | Some requestUrl' \<Rightarrow>
      (let requestBody' = extractBody src initBody';
           requestHeaders' =
             Headers_new
               (case Option.bind requestInit init_headers of
                  Some h \<Rightarrow> Some h
                | None \<Rightarrow>
                    (case input of
                       IsRequest r \<Rightarrow> Some (HeadersObject (request_headers r))
                     | IsURL _ \<Rightarrow> None))
       in case urlToHttpOptions requestUrl' of
            Inl e \<Rightarrow> Inl e
          | Inr options \<Rightarrow>
       (case methodToHttpOption
             (case input of
                IsRequest r \<Rightarrow> Some (request_method r)
              | IsURL _ \<Rightarrow> Option.bind requestInit init_method) of
            Inl e \<Rightarrow> Inl e
          | Inr method \<Rightarrow>
              Inr \<lparr>initBody = initBody', signal = signal', redirect = redirect',
                   requestUrl = requestUrl', requestBody = requestBody', redirects = 0,
                   requestHeaders = requestHeaders', requestOptions_url = options,
                   requestOptions_method = method\<rparr>))))"

section \<open>fetch.ts: sending a request\<close>

definition decimal_digit :: "nat \<Rightarrow> char" where
  "decimal_digit n = ''0123456789'' ! (n mod 10)"

fun toString_nat :: "nat \<Rightarrow> string" where
  "toString_nat n =
     (if n < 10 then [decimal_digit n]
      else toString_nat (n div 10) @ [decimal_digit (n mod 10)])"

record outgoing_message =
  outgoing_url :: url
  outgoing_method :: string
  outgoing_headers :: headers
  outgoing_body :: bytes

text \<open>
  The end of \<open>_call\<close>: the request headers are completed in place, assigned to the
  outgoing message, and the body is written or piped.
\<close>

definition call_send :: "fetch_state \<Rightarrow> outgoing_message \<times> fetch_state" where
  "call_send st =
     (let method = requestOptions_method st;
          hs = requestHeaders st;
          hs = (if \<not> headers_has hs ''Accept'' then headers_set ''Accept'' ''*/*'' hs else hs);
          hs = (case contentType (requestBody st) of
                  Some t \<Rightarrow> if t \<noteq> [] then headers_set ''Content-Type'' t hs else hs
                | None \<Rightarrow> hs);
          hs = (if body (requestBody st) = None \<and> (method = ''POST'' \<or> method = ''PUT'')
                then headers_set ''Content-Length'' ''0'' hs
                else
                  (case contentLength (requestBody st) of
                     Some n \<Rightarrow>
                       if body (requestBody st) \<noteq> None
                       then headers_set ''Content-Length'' (toString_nat n) hs else hs
                   | None \<Rightarrow> hs))
      in (\<lparr>outgoing_url = requestOptions_url st, outgoing_method = method,
           outgoing_headers = hs, outgoing_body = bytes_to_send (body (requestBody st))\<rparr>,
          st\<lparr>requestHeaders := hs\<rparr>))"

section \<open>fetch.ts: handling a response\<close>

record incoming_message =
  statusCode :: nat
  statusMessage :: string
  rawHeaders :: "string list"
  incoming_stream :: "bytes list"

datatype response_body =
    NullBody
  | IncomingBody "bytes list"
  | DecodedBody decoder "bytes list"

record response =
  response_status :: nat
  response_statusText :: string
  response_headers :: headers
  response_body :: response_body
  response_url :: string
  response_redirected :: bool
  response_type :: string

text \<open>
  What the response handler does with the promise: it resolves it, rejects it, sends the
  next request (the recursive \<open>_call\<close>), or leaves it pending because a host
  constructor threw inside the handler.
\<close>

datatype outcome = Resolve response | Reject error | Call fetch_state | Uncaught error

text \<open>
  The host's \<open>Response\<close> constructor refuses a status outside 200..599 and a body on a
  null-body status; \<open>createResponse\<close> then fixes \<open>url\<close>, \<open>type\<close> and \<open>redirected\<close>.
\<close>

definition createResponse ::
  "response_body \<Rightarrow> nat \<Rightarrow> string \<Rightarrow> headers \<Rightarrow> string \<Rightarrow> bool \<Rightarrow> error + response" where
  "createResponse b status statusText hs url' redirected =
     (if status < 200 \<or> 599 < status
      then Inl (RangeError (''init['' @ dquote @ ''status'' @ dquote
             @ ''] must be in the range of 200 to 599, inclusive.''))
      else if b \<noteq> NullBody \<and> status \<in> {101, 103, 204, 205, 304}
      then Inl (TypeError ''Response constructor: Invalid response status code'')
      else Inr \<lparr>response_status = status, response_statusText = statusText,
                response_headers = hs, response_body = b, response_url = url',
                response_redirected = redirected, response_type = ''default''\<rparr>)"

text \<open>The handler from \<open>const destroy\<close> to \<open>resolve\<close>: the ordinary delivery.\<close>

definition deliver :: "fetch_state \<Rightarrow> incoming_message \<Rightarrow> headers \<Rightarrow> outcome" where
  "deliver st incoming hs =
     (let method = requestOptions_method st;
          status = statusCode incoming;
          encoding = map_option toLowerCase (headers_get hs ''Content-Encoding'');
          (hs', b) =
            (if method = ''HEAD'' \<or> status = 204 \<or> status = 304 then (hs, NullBody)
             else
               (case encoding of
                  Some enc \<Rightarrow>
                    (headers_set ''Content-Encoding'' enc hs,
                     DecodedBody (createContentDecoder enc) (incoming_stream incoming))
                | None \<Rightarrow> (hs, IncomingBody (incoming_stream incoming))))
      in case createResponse b status (statusMessage incoming) hs'
              (href (requestUrl st)) (0 < redirects st) of
           Inl e \<Rightarrow> Uncaught e
         | Inr r \<Rightarrow> Resolve r)"

text \<open>The \<open>follow\<close> branch of the handler, for a resolved \<open>Location\<close>.\<close>

definition follow_redirect ::
  "(nat \<Rightarrow> byte) \<Rightarrow> fetch_state \<Rightarrow> incoming_message \<Rightarrow> url \<Rightarrow> outcome" where
  "follow_redirect src st incoming locationURL =
     (let method = requestOptions_method st;
          status = statusCode incoming;
          st = st\<lparr>redirects := redirects st + 1\<rparr>
      in if MAX_REDIRECTS < redirects st
         then Reject (Error (''maximum redirect reached at: '' @ href (requestUrl st)))
         else if protocol locationURL \<noteq> ''http:'' \<and> protocol locationURL \<noteq> ''https:''
         then Reject (Error ''URL scheme must be a HTTP(S) scheme'')
         else
           (case
              (if status = 303 \<or> ((status = 301 \<or> status = 302) \<and> method = ''POST'')
               then Inr (st\<lparr>requestBody := extractBody src None,
                           requestOptions_method := ''GET'',
                           requestHeaders := headers_delete ''Content-Length'' (requestHeaders st)\<rparr>)
               else if body (requestBody st) \<noteq> None \<and> contentLength (requestBody st) = None
               then Inl (Error ''Cannot follow redirect with a streamed body'')
               else Inr (st\<lparr>requestBody := extractBody src (initBody st)\<rparr>)) of
              Inl e \<Rightarrow> Reject e
            | Inr st \<Rightarrow>
                (case urlToHttpOptions locationURL of
                   Inl e \<Rightarrow> Uncaught e
                 | Inr options \<Rightarrow>
                     Call (st\<lparr>requestUrl := locationURL, requestOptions_url := options\<rparr>))))"

text \<open>The \<open>response\<close> handler of \<open>_call\<close>.\<close>

definition on_response ::
  "url_parser \<Rightarrow> (nat \<Rightarrow> byte) \<Rightarrow> fetch_state \<Rightarrow> incoming_message \<Rightarrow> outcome" where
  "on_response parseURL src st incoming =
     (let hs = headersOfRawHeaders (rawHeaders incoming)
      in if isRedirectCode (statusCode incoming)
         then
           (case
              (case headers_get hs ''Location'' of
                 None \<Rightarrow> Inr None
               | Some location \<Rightarrow>
                   (case parseURL location (Some (requestUrl st)) of
                      None \<Rightarrow> Inl (TypeError ''Invalid URL'')
                    | Some u \<Rightarrow> Inr (Some u))) of
              Inl e \<Rightarrow> Uncaught e
            | Inr locationURL \<Rightarrow>
                if redirect st = ErrorMode
                then Reject (Error
                  ''URI requested responds with a redirect, redirect mode is set to error'')
                else
                  (case locationURL of
                     Some u \<Rightarrow>
                       if redirect st = Manual
                       then deliver st incoming (headers_set ''Location'' (href u) hs)
                       else follow_redirect src st incoming u
                   | None \<Rightarrow> deliver st incoming hs))
         else deliver st incoming hs)"

text \<open>
  The response is a redirect that the handler is ready to follow to \<open>u\<close>: a redirect
  status under mode \<open>follow\<close>, a \<open>Location\<close> that resolves to the HTTP(S) URL \<open>u\<close>, and
  a redirect count below the maximum.
\<close>

definition redirect_target ::
  "url_parser \<Rightarrow> fetch_state \<Rightarrow> incoming_message \<Rightarrow> url option" where
  "redirect_target parseURL st incoming =
     (if isRedirectCode (statusCode incoming) \<and> redirect st = Follow
         \<and> redirects st < MAX_REDIRECTS
      then
        (case headers_get (headersOfRawHeaders (rawHeaders incoming)) ''Location'' of
           None \<Rightarrow> None
         | Some location \<Rightarrow>
             (case parseURL location (Some (requestUrl st)) of
                None \<Rightarrow> None
              | Some u \<Rightarrow>
                  if protocol u = ''http:'' \<or> protocol u = ''https:'' then Some u else None))
      else None)"

text \<open>
  A URL parser for concrete evaluations: it accepts absolute \<open>http:\<close>, \<open>https:\<close> and
  \<open>file:\<close> URLs and nothing else.
\<close>

definition absolute_parser :: url_parser where
  "absolute_parser input base =
     (if take 7 input = ''http://'' then Some \<lparr>protocol = ''http:'', href = input\<rparr>
      else if take 8 input = ''https://'' then Some \<lparr>protocol = ''https:'', href = input\<rparr>
      else if take 7 input = ''file://'' then Some \<lparr>protocol = ''file:'', href = input\<rparr>
      else None)"

section \<open>fetch.ts: the redirect loop\<close>

text \<open>
  The network is a function from the request sent to the response received, or to the
  error that the outgoing message emits. \<open>call\<close> is \<open>_call\<close>: it sends the request
  and runs the response handler, which may call \<open>_call\<close> again. Every such call has
  raised the redirect count, which stays at most \<open>MAX_REDIRECTS\<close>, so the loop ends.
\<close>

type_synonym server = "outgoing_message \<Rightarrow> error + incoming_message"

function call :: "url_parser \<Rightarrow> (nat \<Rightarrow> byte) \<Rightarrow> server \<Rightarrow> fetch_state \<Rightarrow> outcome" where
  "call parseURL src server st =
     (case call_send st of
        (outgoing, st1) \<Rightarrow>
          (case server outgoing of
             Inl e \<Rightarrow> Reject e
           | Inr incoming \<Rightarrow>
               (case on_response parseURL src st1 incoming of
                  Call st' \<Rightarrow> call parseURL src server st'
                | Resolve r \<Rightarrow> Resolve r
                | Reject e \<Rightarrow> Reject e
                | Uncaught e \<Rightarrow> Uncaught e)))"
  by pat_completeness auto
termination
proof (relation "measure (\<lambda>(parseURL, src, server, st). Suc MAX_REDIRECTS - redirects st)")
  show "wf (measure (\<lambda>(parseURL, src, server, st). Suc MAX_REDIRECTS - redirects st))"
    by simp
next
  fix parseURL :: url_parser and src :: "nat \<Rightarrow> byte" and server :: server
    and st st1 st' :: fetch_state and outgoing incoming
  assume send: "(outgoing, st1) = call_send st"
    and "server outgoing = Inr incoming"
    and on: "on_response parseURL src st1 incoming = Call st'"
  from send have same: "redirects st1 = redirects st"
    by (simp add: call_send_def Let_def)
  from on have "redirects st' = Suc (redirects st1) \<and> redirects st' \<le> MAX_REDIRECTS"
    by (auto simp: on_response_def follow_redirect_def deliver_def Let_def
        split: if_splits option.splits sum.splits prod.splits)
  with same show "((parseURL, src, server, st'), (parseURL, src, server, st))
      \<in> measure (\<lambda>(parseURL, src, server, st). Suc MAX_REDIRECTS - redirects st)"
    by (simp, arith)
qed

definition fetch ::
  "url_parser \<Rightarrow> (nat \<Rightarrow> byte) \<Rightarrow> server \<Rightarrow> fetch_input \<Rightarrow> request_init option
    \<Rightarrow> outcome" where
  "fetch parseURL src server input requestInit =
     (case fetch_prepare parseURL src input requestInit of
        Inl e \<Rightarrow> Reject e
      | Inr st \<Rightarrow> call parseURL src server st)"

section \<open>Concrete inputs\<close>

text \<open>A fixed entropy source, for evaluating the extractor on concrete inputs.\<close>

definition fixed_source :: "nat \<Rightarrow> byte" where
  "fixed_source i = of_nat (37 * i + 11)"

text \<open>
  The plan of a fetch of \<open>http://example.com/redirect\<close> with the given method, body,
  redirect mode and headers, and a response with the given status and raw headers.
\<close>

definition example_url :: url where
  "example_url = \<lparr>protocol = ''http:'', href = ''http://example.com/redirect''\<rparr>"

definition example_plan ::
  "string \<Rightarrow> body_init option \<Rightarrow> redirect_mode \<Rightarrow> headers \<Rightarrow> fetch_state" where
  "example_plan m b mode hs =
     \<lparr>initBody = b, signal = None, redirect = mode, requestUrl = example_url,
      requestBody = extractBody fixed_source b, redirects = 0, requestHeaders = hs,
      requestOptions_url = example_url, requestOptions_method = m\<rparr>"

definition example_incoming :: "nat \<Rightarrow> string list \<Rightarrow> incoming_message" where
  "example_incoming status raw =
     \<lparr>statusCode = status, statusMessage = ''Moved'', rawHeaders = raw,
      incoming_stream = []\<rparr>"

text \<open>
  A server that answers \<open>/redirect\<close> with a 302 to \<open>/inspect\<close>, \<open>/loop\<close> with a
  307 to itself, and everything else with a 200 that echoes the method and the body.
\<close>

definition example_server :: server where
  "example_server outgoing =
     (if href (outgoing_url outgoing) = ''http://example.com/redirect''
      then Inr (example_incoming 302 [''Location'', ''http://example.com/inspect''])
      else if href (outgoing_url outgoing) = ''http://example.com/loop''
      then Inr (example_incoming 307 [''Location'', ''http://example.com/loop''])
      else Inr \<lparr>statusCode = 200, statusMessage = ''OK'',
                rawHeaders = [''X-Method'', outgoing_method outgoing],
                incoming_stream = [outgoing_body outgoing]\<rparr>)"

section \<open>Properties of the header adapter\<close>

lemma headers_values_set_at_same:
  "map snd (filter (\<lambda>e. fst e = k) (headers_set_at k v hs)) = [v]"
  by (induction hs) (auto simp: filter_empty_conv)

lemma headers_values_set_at_other:
  "k' \<noteq> k \<Longrightarrow> filter (\<lambda>e. fst e = k') (headers_set_at k v hs) = filter (\<lambda>e. fst e = k') hs"
proof (induction hs)
  case Nil
  then show ?case by simp
next
  case (Cons e hs)
  have "filter (\<lambda>e. fst e = k') (filter (\<lambda>e. fst e \<noteq> k) hs) = filter (\<lambda>e. fst e = k') hs"
    using Cons.prems by (induction hs) auto
  with Cons show ?case by (cases e) auto
qed

lemma headers_get_set:
  "headers_get (headers_set k v hs) name =
     (if toLowerCase name = toLowerCase k then Some v else headers_get hs name)"
  by (simp add: headers_get_def headers_values_def headers_set_def
      headers_values_set_at_same headers_values_set_at_other)

lemma headers_set_at_keys:
  "(a, b) \<in> set (headers_set_at k v hs) \<Longrightarrow> a = k \<or> a \<in> fst ` set hs"
  by (induction hs) (force split: if_splits)+

lemma distinct_headers_set_at:
  "distinct (map fst hs) \<Longrightarrow> distinct (map fst (headers_set_at k v hs))"
proof (induction hs)
  case Nil
  then show ?case by simp
next
  case (Cons e hs)
  obtain k' v' where e: "e = (k', v')" by (cases e)
  show ?case
  proof (cases "k' = k")
    case True
    have "distinct (map fst (filter (\<lambda>e. fst e \<noteq> k) hs))"
      using Cons.prems by (simp add: distinct_map_filter)
    with True show ?thesis by (auto simp: e)
  next
    case False
    have "k' \<notin> fst ` set (headers_set_at k v hs)"
    proof
      assume "k' \<in> fst ` set (headers_set_at k v hs)"
      then obtain b where "(k', b) \<in> set (headers_set_at k v hs)" by auto
      then have "k' = k \<or> k' \<in> fst ` set hs" by (rule headers_set_at_keys)
      with False Cons.prems show False by (simp add: e)
    qed
    with False Cons show ?thesis by (simp add: e)
  qed
qed

lemma distinct_rawHeaders_loop:
  "distinct (map fst hs) \<Longrightarrow> distinct (map fst (rawHeaders_loop raw hs))"
  by (induction raw hs rule: rawHeaders_loop.induct)
    (simp_all add: headers_set_def distinct_headers_set_at)

lemma headers_get_rawHeaders_loop:
  "headers_get (rawHeaders_loop (rawOfPairs ps) hs) name =
     (case rev (occurrences name ps) of [] \<Rightarrow> headers_get hs name | p # _ \<Rightarrow> Some (snd p))"
proof (induction ps arbitrary: hs)
  case Nil
  then show ?case by (simp add: occurrences_def)
next
  case (Cons p ps)
  obtain k v where p: "p = (k, v)" by (cases p)
  show ?case
    by (auto simp: p Cons.IH headers_get_set occurrences_def split: list.splits)
qed

text \<open>
  C10. For a raw header list \<open>[k0, v0, k1, v1, ...]\<close> the container built by
  \<open>headersOfRawHeaders\<close> maps every name to the value of the last pair whose key equals
  the name up to case (and to nothing when there is none), and it holds at most one
  entry per name: the earlier values of a repeated key are discarded.
\<close>

theorem headersOfRawHeaders_last_occurrence:
  "headers_get (headersOfRawHeaders (rawOfPairs ps)) name =
     (case rev (occurrences name ps) of [] \<Rightarrow> None | p # _ \<Rightarrow> Some (snd p))
   \<and> distinct (map fst (headersOfRawHeaders (rawOfPairs ps)))"
proof
  have "headers_get [] name = None"
    by (simp add: headers_get_def headers_values_def)
  then show "headers_get (headersOfRawHeaders (rawOfPairs ps)) name =
      (case rev (occurrences name ps) of [] \<Rightarrow> None | p # _ \<Rightarrow> Some (snd p))"
    by (simp add: headersOfRawHeaders_def headers_get_rawHeaders_loop split: list.splits)
  show "distinct (map fst (headersOfRawHeaders (rawOfPairs ps)))"
    by (simp add: headersOfRawHeaders_def distinct_rawHeaders_loop)
qed

theorem headersOfRawHeaders_last_occurrence_witness:
  "headers_get
     (headersOfRawHeaders
       (rawOfPairs [(''Set-Cookie'', ''a''), (''X'', ''y''), (''set-cookie'', ''b'')]))
     ''SET-COOKIE'' = Some ''b''"
  using headersOfRawHeaders_last_occurrence
    [of "[(''Set-Cookie'', ''a''), (''X'', ''y''), (''set-cookie'', ''b'')]" "''SET-COOKIE''"]
  by (simp add: occurrences_def toLowerCase_def lower_char_def upper_letters_def
      lower_letters_def)

section \<open>Properties of the deflate decoder\<close>

lemma inflate_committed_stays:
  "inflate s = Some v \<Longrightarrow> inflate (fold InflateStream_transform cs s) = Some v"
  by (induction cs arbitrary: s) (simp_all add: InflateStream_transform_def)

lemma inflate_fold_undetermined:
  "inflate s = None \<Longrightarrow>
   inflate (fold InflateStream_transform cs s) =
     map_option (\<lambda>b. if b AND 0x0f = 0x08 then Inflate else InflateRaw) (first_byte cs)"
proof (induction cs arbitrary: s)
  case Nil
  then show ?case by simp
next
  case (Cons c cs)
  show ?case
  proof (cases c)
    case Nil
    with Cons show ?thesis by (simp add: InflateStream_transform_def)
  next
    case (Cons b bs)
    with \<open>inflate s = None\<close>
    have step: "inflate (InflateStream_transform c s) =
        Some (if b AND 0x0f = 0x08 then Inflate else InflateRaw)"
      by (simp add: InflateStream_transform_def)
    show ?thesis
      using inflate_committed_stays [OF step, of cs] by (simp add: Cons)
  qed
qed

text \<open>
  C7. Feeding any sequence of chunks to a fresh \<open>InflateStream\<close> leaves the variant
  undetermined while only empty chunks have arrived, and otherwise commits it on the
  first byte \<open>b\<close> of the first non-empty chunk: zlib-wrapped deflate when
  \<open>b AND 0x0F = 0x08\<close>, raw deflate otherwise. Later chunks do not change it.
\<close>

theorem InflateStream_variant_by_first_byte:
  "inflate (fold InflateStream_transform chunks InflateStream_new) =
     (case first_byte chunks of
        None \<Rightarrow> None
      | Some b \<Rightarrow> Some (if b AND 0x0f = 0x08 then Inflate else InflateRaw))
   \<and> inflate (fold InflateStream_transform (replicate n []) InflateStream_new) = None"
proof
  have new: "inflate InflateStream_new = None"
    by (simp add: InflateStream_new_def)
  show "inflate (fold InflateStream_transform chunks InflateStream_new) =
     (case first_byte chunks of
        None \<Rightarrow> None
      | Some b \<Rightarrow> Some (if b AND 0x0f = 0x08 then Inflate else InflateRaw))"
    by (simp add: inflate_fold_undetermined [OF new] split: option.splits)
  have "first_byte (replicate n []) = None"
    by (induction n) simp_all
  then show "inflate (fold InflateStream_transform (replicate n []) InflateStream_new) = None"
    using inflate_fold_undetermined [OF new, of "replicate n []"] by simp
qed

theorem InflateStream_variant_by_first_byte_witness:
  "inflate (fold InflateStream_transform [[], [0x78, 0x9c], [0x01]] InflateStream_new)
     = Some Inflate
   \<and> inflate (fold InflateStream_transform [[], [], [0x4b, 0x04], [0x78]] InflateStream_new)
     = Some InflateRaw"
  using InflateStream_variant_by_first_byte [of "[[], [0x78, 0x9c], [0x01]]" 0]
    InflateStream_variant_by_first_byte [of "[[], [], [0x4b, 0x04], [0x78]]" 0]
  by simp

section \<open>Properties of the body extractor\<close>

lemma length_encode: "length (encode s) = length s"
  by (simp add: encode_def)

lemma encode_append: "encode (a @ b) = encode a @ encode b"
  by (simp add: encode_def)

lemma foldl_len_shift:
  "foldl (\<lambda>len (name, v). len + f name v) (a + b) form =
     a + foldl (\<lambda>len (name, v). len + f name v) (b::nat) form"
  by (induction form arbitrary: b) (auto simp: add.assoc)

lemma getFormDataLength_Cons:
  "getFormDataLength ((name, v) # form) boundary =
     byteLength (getFormHeader boundary name v)
       + (case v of FieldBlob b \<Rightarrow> blob_size b | FieldString s \<Rightarrow> byteLength s)
       + CRLF_LENGTH + getFormDataLength form boundary"
  unfolding getFormDataLength_def
  by (simp add: foldl_len_shift [symmetric] add.commute)

lemma generatorOfFormData_length:
  "accurate_sizes form \<Longrightarrow>
   length (concat (generatorOfFormData form boundary)) = getFormDataLength form boundary"
proof (induction form)
  case Nil
  then show ?case by (simp add: getFormDataLength_def byteLength_def)
next
  case (Cons e form)
  obtain name v where e: "e = (name, v)" by (cases e)
  from Cons.prems have acc: "accurate_sizes form" by (simp add: accurate_sizes_def)
  show ?case
  proof (cases v)
    case (FieldString s)
    with Cons.IH [OF acc] show ?thesis
      by (simp add: e getFormDataLength_Cons byteLength_def CRLF_def CRLF_LENGTH_def
          length_encode)
  next
    case (FieldBlob b)
    with Cons.prems have "blob_size b = length (concat (blob_stream b))"
      by (simp add: accurate_sizes_def e)
    with FieldBlob Cons.IH [OF acc] show ?thesis
      by (simp add: e getFormDataLength_Cons byteLength_def CRLF_def CRLF_LENGTH_def
          length_encode)
  qed
qed

lemma hex_digit_mem: "hex_digit n \<in> set hex_digits"
  unfolding hex_digit_def by (rule nth_mem) (simp add: hex_digits_def)

lemma toHex_length: "length (toHex bs) = 2 * length bs"
  by (induction bs) (simp_all add: toHex_def)

lemma toHex_hex: "list_all (\<lambda>c. c \<in> set hex_digits) (toHex bs)"
  by (induction bs) (simp_all add: toHex_def hex_digit_mem)

lemma boundary_hex16: "is_hex16 (toHex (randomBytes src 8))"
  by (simp add: is_hex16_def toHex_length toHex_hex randomBytes_def)

text \<open>
  C8. For a FormData body whose blob entries report the number of bytes their streams
  yield, the \<open>contentLength\<close> computed by the extractor is the number of bytes the
  multipart stream emits (for every boundary, the generator emits exactly
  \<open>getFormDataLength\<close> bytes), and the content type carries a generated boundary of the
  form \<open>formdata-\<close> followed by 16 lower-case hexadecimal digits.
\<close>

theorem extractBody_FormData_length_exact:
  assumes "accurate_sizes form"
  shows "contentLength (extractBody src (Some (IsFormData form))) =
           Some (length (bytes_to_send (body (extractBody src (Some (IsFormData form))))))
       \<and> length (concat (generatorOfFormData form boundary)) = getFormDataLength form boundary
       \<and> (\<exists>h. is_hex16 h \<and> makeFormBoundary src = ''formdata-'' @ h
            \<and> contentType (extractBody src (Some (IsFormData form))) =
                Some (''multipart/form-data; boundary=formdata-'' @ h))"
proof (intro conjI)
  show "contentLength (extractBody src (Some (IsFormData form))) =
      Some (length (bytes_to_send (body (extractBody src (Some (IsFormData form))))))"
    by (simp add: extractBody_def bytes_to_send_def Let_def
        generatorOfFormData_length [OF assms])
  show "length (concat (generatorOfFormData form boundary)) = getFormDataLength form boundary"
    by (rule generatorOfFormData_length [OF assms])
  show "\<exists>h. is_hex16 h \<and> makeFormBoundary src = ''formdata-'' @ h
      \<and> contentType (extractBody src (Some (IsFormData form))) =
          Some (''multipart/form-data; boundary=formdata-'' @ h)"
    using boundary_hex16 [of src]
    by (intro exI [of _ "toHex (randomBytes src 8)"])
      (simp add: extractBody_def makeFormBoundary_def Let_def)
qed

theorem extractBody_FormData_length_exact_witness:
  "accurate_sizes
     [(''a'', FieldString ''1''),
      (''f'', FieldBlob \<lparr>blob_name = Some ''x.txt'', blob_type = [], blob_size = 3,
                        blob_stream = [[1, 2], [3]]\<rparr>)]
   \<and> contentLength (extractBody fixed_source (Some (IsFormData
        [(''a'', FieldString ''1''),
         (''f'', FieldBlob \<lparr>blob_name = Some ''x.txt'', blob_type = [], blob_size = 3,
                           blob_stream = [[1, 2], [3]]\<rparr>)]))) = Some 245
   \<and> length (bytes_to_send (body (extractBody fixed_source (Some (IsFormData
        [(''a'', FieldString ''1''),
         (''f'', FieldBlob \<lparr>blob_name = Some ''x.txt'', blob_type = [], blob_size = 3,
                           blob_stream = [[1, 2], [3]]\<rparr>)]))))) = 245"
proof -
  let ?form = "[(''a'', FieldString ''1''),
      (''f'', FieldBlob \<lparr>blob_name = Some ''x.txt'', blob_type = [], blob_size = 3,
                        blob_stream = [[1, 2], [3::byte]]\<rparr>)]"
  have acc: "accurate_sizes ?form"
    by (simp add: accurate_sizes_def)
  have len: "contentLength (extractBody fixed_source (Some (IsFormData ?form))) = Some 245"
    by code_simp
  from extractBody_FormData_length_exact [OF acc, of fixed_source] len acc
  show ?thesis by simp
qed

text \<open>
  The single-entry form \<open>a = 1\<close> of the test suite has the content length 109.
\<close>

lemma extractBody_FormData_single_entry:
  "contentLength (extractBody fixed_source (Some (IsFormData [(''a'', FieldString ''1'')])))
     = Some 109"
  by code_simp

text \<open>
  C9, as stated: the body of the extracted state is \<open>null\<close> exactly when the content
  length is 0 or \<open>null\<close> and there are no bytes to send. This fails for an empty
  \<open>Uint8Array\<close>: the extractor wraps it as a non-null body of length 0.
\<close>

theorem extractBody_null_iff_counterexample:
  "\<not> (body (extractBody fixed_source (Some (IsUint8Array []))) = None \<longleftrightarrow>
       contentLength (extractBody fixed_source (Some (IsUint8Array []))) \<in> {Some 0, None}
       \<and> bytes_to_send (body (extractBody fixed_source (Some (IsUint8Array [])))) = [])"
  by (simp add: extractBody_def bytes_to_send_def)

text \<open>
  C9, amended. The body of the extracted state is \<open>null\<close> exactly when the input is
  \<open>null\<close>; and when the body is \<open>null\<close>, the content length is 0 and there are no
  bytes to send.
\<close>

theorem extractBody_null_body:
  "(body (extractBody src object) = None \<longleftrightarrow> object = None)
   \<and> (body (extractBody src object) = None \<longrightarrow>
        contentLength (extractBody src object) = Some 0
        \<and> bytes_to_send (body (extractBody src object)) = [])"
proof (cases object)
  case None
  then show ?thesis by (simp add: extractBody_def bytes_to_send_def)
next
  case (Some x)
  then show ?thesis by (cases x) (simp_all add: extractBody_def Let_def)
qed

theorem extractBody_null_body_witness:
  "body (extractBody fixed_source None) = None
   \<and> contentLength (extractBody fixed_source None) = Some 0
   \<and> bytes_to_send (body (extractBody fixed_source None)) = []"
  using extractBody_null_body [of fixed_source None] by simp

section \<open>Properties of the request plan\<close>

lemma headers_has_get: "headers_has hs name \<longleftrightarrow> headers_get hs name \<noteq> None"
  by (simp add: headers_has_def headers_get_def split: list.splits)

lemma headers_has_set:
  "headers_has (headers_set k v hs) name \<longleftrightarrow>
     toLowerCase name = toLowerCase k \<or> headers_has hs name"
  by (simp add: headers_has_get headers_get_set)

lemma headers_values_delete:
  "headers_values name (headers_delete k hs) =
     (if toLowerCase name = toLowerCase k then [] else headers_values name hs)"
  by (induction hs) (auto simp: headers_values_def headers_delete_def)

lemma headers_has_delete:
  "headers_has (headers_delete k hs) name \<longleftrightarrow>
     toLowerCase name \<noteq> toLowerCase k \<and> headers_has hs name"
  by (simp add: headers_has_def headers_values_delete)

lemma lower_names:
  "toLowerCase ''Content-Length'' = ''content-length''"
  "toLowerCase ''Content-Type'' = ''content-type''"
  "toLowerCase ''Accept'' = ''accept''"
  "toLowerCase ''Location'' = ''location''"
  "toLowerCase ''Content-Encoding'' = ''content-encoding''"
  by (simp_all add: toLowerCase_def lower_char_def upper_letters_def lower_letters_def)

text \<open>
  C1, as stated: with a \<open>Request\<close> as input, every field present in \<open>init\<close> overrides
  the field of the Request. This fails for \<open>method\<close>, \<open>body\<close>, \<open>signal\<close> and
  \<open>redirect\<close>: for a GET Request without body under mode \<open>follow\<close>, an \<open>init\<close> with
  method POST, body \<open>a=1\<close>, another signal and mode \<open>manual\<close> changes nothing.
\<close>

theorem fetch_prepare_init_override_counterexample:
  "fetch_prepare absolute_parser fixed_source
     (IsRequest \<lparr>request_url = ''http://example.com/redirect'', request_body = None,
       request_signal = 0, request_redirect = ''follow'', request_method = ''GET'',
       request_headers = [(''x-custom-header'', ''abc'')]\<rparr>)
     (Some \<lparr>init_method = Some ''POST'', init_headers = None,
            init_body = Some (IsString ''a=1''), init_signal = Some 1,
            init_redirect = Some ''manual''\<rparr>)
   = Inr (example_plan ''GET'' None Follow [(''x-custom-header'', ''abc'')]
           \<lparr>signal := Some 0\<rparr>)"
  by code_simp

text \<open>
  C1, amended. With a \<open>Request\<close> as input, the method, the body, the signal and the
  redirect mode are those of the Request, whatever \<open>init\<close> holds; the headers are
  those of \<open>init.headers\<close> when it is present, which replace the headers of the Request
  as a whole (so \<open>init.headers\<close> wins on every key), and those of the Request otherwise.
\<close>

theorem fetch_prepare_Request_fields:
  assumes "fetch_prepare parseURL src (IsRequest r) requestInit = Inr st"
  shows "methodToHttpOption (Some (request_method r)) = Inr (requestOptions_method st)
       \<and> initBody st = request_body r
       \<and> requestBody st = extractBody src (request_body r)
       \<and> signal st = Some (request_signal r)
       \<and> toRedirectOption (Some (request_redirect r)) = Inr (redirect st)
       \<and> requestHeaders st =
           (case Option.bind requestInit init_headers of
              Some h \<Rightarrow> Headers_new (Some h)
            | None \<Rightarrow> request_headers r)"
  using assms
  by (auto simp: fetch_prepare_def Let_def Headers_new_def
      split: sum.splits option.splits)

theorem fetch_prepare_Request_fields_witness:
  "fetch_prepare absolute_parser fixed_source
     (IsRequest \<lparr>request_url = ''http://example.com/redirect'', request_body = None,
       request_signal = 0, request_redirect = ''follow'', request_method = ''GET'',
       request_headers = [(''x-custom-header'', ''abc''), (''x-other'', ''1'')]\<rparr>)
     (Some \<lparr>init_method = Some ''POST'',
            init_headers = Some (HeadersPairs [(''X-Custom-Header'', ''def'')]),
            init_body = Some (IsString ''a=1''), init_signal = Some 1,
            init_redirect = Some ''manual''\<rparr>)
   = Inr (example_plan ''GET'' None Follow [(''x-custom-header'', ''def'')]
           \<lparr>signal := Some 0\<rparr>)
   \<and> methodToHttpOption (Some ''GET'') = Inr ''GET''
   \<and> toRedirectOption (Some ''follow'') = Inr Follow
   \<and> Headers_new (Some (HeadersPairs [(''X-Custom-Header'', ''def'')]))
       = [(''x-custom-header'', ''def'')]"
proof -
  let ?r = "\<lparr>request_url = ''http://example.com/redirect'', request_body = None,
       request_signal = 0, request_redirect = ''follow'', request_method = ''GET'',
       request_headers = [(''x-custom-header'', ''abc''), (''x-other'', ''1'')]\<rparr>"
  let ?i = "Some \<lparr>init_method = Some ''POST'',
            init_headers = Some (HeadersPairs [(''X-Custom-Header'', ''def'')]),
            init_body = Some (IsString ''a=1''), init_signal = Some 1,
            init_redirect = Some ''manual''\<rparr>"
  have prep: "fetch_prepare absolute_parser fixed_source (IsRequest ?r) ?i
     = Inr (example_plan ''GET'' None Follow [(''x-custom-header'', ''def'')]
           \<lparr>signal := Some 0\<rparr>)"
    by code_simp
  from fetch_prepare_Request_fields [OF prep] prep
  show ?thesis by (simp add: example_plan_def)
qed

text \<open>
  C5, at the method \<open>connect\<close>: its upper-case form is CONNECT, and
  \<open>methodToHttpOption\<close> does not reject it but returns \<open>CONNECT\<close> as the method to
  send, because the comparison with the three literals precedes the upper-casing.
\<close>

theorem methodToHttpOption_lowercase_connect:
  "methodToHttpOption (Some ''connect'') = Inr ''CONNECT''"
  by (simp add: methodToHttpOption_def toUpperCase_def upper_char_def lower_letters_def
      upper_letters_def)

lemma methodToHttpOption_cases:
  "methodToHttpOption None = Inr ''GET''"
  "m \<in> {''CONNECT'', ''TRACE'', ''TRACK''} \<Longrightarrow> \<exists>msg. methodToHttpOption (Some m) = Inl (TypeError msg)"
  "m \<notin> {''CONNECT'', ''TRACE'', ''TRACK''} \<Longrightarrow> m \<noteq> [] \<Longrightarrow>
     methodToHttpOption (Some m) = Inr (toUpperCase m)"
  by (auto simp: methodToHttpOption_def)

section \<open>Properties of sending and of the response handler\<close>

text \<open>
  C2, at a POST of the string \<open>{}\<close> with the caller's header
  \<open>Content-Type: application/json\<close>: the request is sent with the content type
  synthesized for the body, \<open>text/plain;charset=UTF-8\<close>, not with the caller's.
\<close>

theorem call_send_overwrites_Content_Type:
  "fetch_prepare absolute_parser fixed_source (IsURL ''http://example.com/inspect'')
     (Some \<lparr>init_method = Some ''POST'',
            init_headers = Some (HeadersPairs [(''Content-Type'', ''application/json'')]),
            init_body = Some (IsString ''{}''), init_signal = None, init_redirect = None\<rparr>)
     = Inr (example_plan ''POST'' (Some (IsString ''{}'')) Follow
              [(''content-type'', ''application/json'')]
            \<lparr>requestUrl := \<lparr>protocol = ''http:'', href = ''http://example.com/inspect''\<rparr>,
              requestOptions_url := \<lparr>protocol = ''http:'', href = ''http://example.com/inspect''\<rparr>\<rparr>)
   \<and> headers_get
       (outgoing_headers (fst (call_send
          (example_plan ''POST'' (Some (IsString ''{}'')) Follow
              [(''content-type'', ''application/json'')]
            \<lparr>requestUrl := \<lparr>protocol = ''http:'', href = ''http://example.com/inspect''\<rparr>,
              requestOptions_url := \<lparr>protocol = ''http:'', href = ''http://example.com/inspect''\<rparr>\<rparr>))))
       ''Content-Type'' = Some ''text/plain;charset=UTF-8''"
  by code_simp

lemma call_send_Content_Type:
  "contentType (requestBody st) = Some t \<Longrightarrow> t \<noteq> [] \<Longrightarrow>
   headers_get (outgoing_headers (fst (call_send st))) ''Content-Type'' = Some t"
  by (simp add: call_send_def Let_def headers_get_set lower_names split: option.splits)

lemma redirect_target_SomeD:
  assumes "redirect_target parseURL st inc = Some u"
  shows "isRedirectCode (statusCode inc)" "redirect st = Follow" "redirects st < MAX_REDIRECTS"
    "protocol u = ''http:'' \<or> protocol u = ''https:''"
    "\<exists>l. headers_get (headersOfRawHeaders (rawHeaders inc)) ''Location'' = Some l
       \<and> parseURL l (Some (requestUrl st)) = Some u"
  using assms by (auto simp: redirect_target_def split: if_splits option.splits)

lemma on_response_target:
  assumes "redirect_target parseURL st inc = Some u"
  shows "on_response parseURL src st inc = follow_redirect src st inc u"
proof -
  from redirect_target_SomeD [OF assms] obtain l where
    "isRedirectCode (statusCode inc)" "redirect st = Follow"
    "headers_get (headersOfRawHeaders (rawHeaders inc)) ''Location'' = Some l"
    "parseURL l (Some (requestUrl st)) = Some u" by blast
  then show ?thesis by (simp add: on_response_def)
qed

lemma follow_redirect_downgrade:
  assumes "redirects st < MAX_REDIRECTS" "protocol u = ''http:'' \<or> protocol u = ''https:''"
    and "statusCode inc = 303 \<or> ((statusCode inc = 301 \<or> statusCode inc = 302) \<and> requestOptions_method st = ''POST'')"
  shows "follow_redirect src st inc u =
     Call (st\<lparr>redirects := redirects st + 1, requestBody := extractBody src None,
              requestOptions_method := ''GET'',
              requestHeaders := headers_delete ''Content-Length'' (requestHeaders st),
              requestUrl := u, requestOptions_url := u\<rparr>)"
  using assms by (auto simp: follow_redirect_def Let_def urlToHttpOptions_def)

lemma follow_redirect_keep:
  assumes "redirects st < MAX_REDIRECTS" "protocol u = ''http:'' \<or> protocol u = ''https:''"
    and "\<not> (statusCode inc = 303 \<or> ((statusCode inc = 301 \<or> statusCode inc = 302) \<and> requestOptions_method st = ''POST''))"
  shows "follow_redirect src st inc u =
     (if body (requestBody st) \<noteq> None \<and> contentLength (requestBody st) = None
      then Reject (Error ''Cannot follow redirect with a streamed body'')
      else Call (st\<lparr>redirects := redirects st + 1,
              requestBody := extractBody src (initBody st),
              requestUrl := u, requestOptions_url := u\<rparr>))"
  using assms by (auto simp: follow_redirect_def Let_def urlToHttpOptions_def)

lemma Call_redirect_target:
  assumes "on_response parseURL src st inc = Call st'"
  shows "redirect_target parseURL st inc = Some (requestUrl st')"
  using assms
  by (cases "redirect st")
    (auto simp: on_response_def redirect_target_def follow_redirect_def deliver_def Let_def
      urlToHttpOptions_def MAX_REDIRECTS_def
      split: if_splits option.splits sum.splits prod.splits)

text \<open>
  C3. On a redirect hop that is followed (to \<open>u\<close>): when the status is 303, or 301 or
  302 with the current method POST, the handler calls \<open>_call\<close> again and the next
  request has the method GET, no body bytes and no \<open>Content-Length\<close> header, and goes
  to \<open>u\<close>; when the status is 307 or 308, a next request keeps the current method.
\<close>

theorem redirect_downgrade_to_GET:
  assumes "redirect_target parseURL st inc = Some u"
  shows "(statusCode inc = 303
          \<or> ((statusCode inc = 301 \<or> statusCode inc = 302) \<and> requestOptions_method st = ''POST'')
          \<longrightarrow> (\<exists>st'. on_response parseURL src st inc = Call st'
                \<and> outgoing_method (fst (call_send st')) = ''GET''
                \<and> outgoing_body (fst (call_send st')) = []
                \<and> \<not> headers_has (outgoing_headers (fst (call_send st'))) ''Content-Length''
                \<and> outgoing_url (fst (call_send st')) = u))
       \<and> (statusCode inc = 307 \<or> statusCode inc = 308
          \<longrightarrow> (\<forall>st'. on_response parseURL src st inc = Call st'
                \<longrightarrow> requestOptions_method st' = requestOptions_method st
                  \<and> outgoing_method (fst (call_send st')) = requestOptions_method st))"
proof (intro conjI impI)
  note t = redirect_target_SomeD [OF assms]
  assume down: "statusCode inc = 303
      \<or> ((statusCode inc = 301 \<or> statusCode inc = 302) \<and> requestOptions_method st = ''POST'')"
  let ?st' = "st\<lparr>redirects := redirects st + 1, requestBody := extractBody src None,
              requestOptions_method := ''GET'',
              requestHeaders := headers_delete ''Content-Length'' (requestHeaders st),
              requestUrl := u, requestOptions_url := u\<rparr>"
  have call: "on_response parseURL src st inc = Call ?st'"
    by (simp only: on_response_target [OF assms] follow_redirect_downgrade [OF t(3) t(4) down])
  have "outgoing_method (fst (call_send ?st')) = ''GET''"
    by (simp add: call_send_def Let_def)
  moreover have "outgoing_body (fst (call_send ?st')) = []"
    by (simp add: call_send_def Let_def extractBody_def bytes_to_send_def)
  moreover have "\<not> headers_has (outgoing_headers (fst (call_send ?st'))) ''Content-Length''"
    by (simp add: call_send_def Let_def extractBody_def headers_has_set headers_has_delete
        lower_names)
  moreover have "outgoing_url (fst (call_send ?st')) = u"
    by (simp add: call_send_def Let_def)
  ultimately show "\<exists>st'. on_response parseURL src st inc = Call st'
      \<and> outgoing_method (fst (call_send st')) = ''GET''
      \<and> outgoing_body (fst (call_send st')) = []
      \<and> \<not> headers_has (outgoing_headers (fst (call_send st'))) ''Content-Length''
      \<and> outgoing_url (fst (call_send st')) = u"
    using call by blast
next
  note t = redirect_target_SomeD [OF assms]
  assume keep: "statusCode inc = 307 \<or> statusCode inc = 308"
  then have nodown: "\<not> (statusCode inc = 303
      \<or> ((statusCode inc = 301 \<or> statusCode inc = 302) \<and> requestOptions_method st = ''POST''))"
    by auto
  show "\<forall>st'. on_response parseURL src st inc = Call st'
      \<longrightarrow> requestOptions_method st' = requestOptions_method st
        \<and> outgoing_method (fst (call_send st')) = requestOptions_method st"
    by (auto simp: on_response_target [OF assms] follow_redirect_keep [OF t(3) t(4) nodown]
        call_send_def Let_def split: if_splits)
qed

theorem redirect_downgrade_to_GET_witness:
  "redirect_target absolute_parser
      (snd (call_send (example_plan ''POST'' (Some (IsString ''a=1'')) Follow [])))
      (example_incoming 302 [''Location'', ''http://example.com/inspect''])
     = Some \<lparr>protocol = ''http:'', href = ''http://example.com/inspect''\<rparr>
   \<and> headers_has (requestHeaders
         (snd (call_send (example_plan ''POST'' (Some (IsString ''a=1'')) Follow []))))
       ''Content-Length''
   \<and> (\<exists>st'. on_response absolute_parser fixed_source
          (snd (call_send (example_plan ''POST'' (Some (IsString ''a=1'')) Follow [])))
          (example_incoming 302 [''Location'', ''http://example.com/inspect'']) = Call st'
        \<and> outgoing_method (fst (call_send st')) = ''GET''
        \<and> outgoing_body (fst (call_send st')) = []
        \<and> \<not> headers_has (outgoing_headers (fst (call_send st'))) ''Content-Length'')
   \<and> (\<exists>st'. on_response absolute_parser fixed_source
          (snd (call_send (example_plan ''POST'' (Some (IsString ''a=1'')) Follow [])))
          (example_incoming 307 [''Location'', ''http://example.com/inspect'']) = Call st'
        \<and> outgoing_method (fst (call_send st')) = ''POST'')"
proof -
  let ?st = "snd (call_send (example_plan ''POST'' (Some (IsString ''a=1'')) Follow []))"
  let ?inc = "example_incoming 302 [''Location'', ''http://example.com/inspect'']"
  let ?inc' = "example_incoming 307 [''Location'', ''http://example.com/inspect'']"
  let ?u = "\<lparr>protocol = ''http:'', href = ''http://example.com/inspect''\<rparr>"
  have target: "redirect_target absolute_parser ?st ?inc = Some ?u"
    by code_simp
  have target': "redirect_target absolute_parser ?st ?inc' = Some ?u"
    by code_simp
  have has: "headers_has (requestHeaders ?st) ''Content-Length''"
    by code_simp
  have status: "statusCode ?inc = 302" "statusCode ?inc' = 307"
    "requestOptions_method ?st = ''POST''"
    by (simp_all add: example_incoming_def example_plan_def call_send_def Let_def)
  have known: "\<not> (body (requestBody ?st) \<noteq> None \<and> contentLength (requestBody ?st) = None)"
    by (simp add: example_plan_def call_send_def Let_def extractBody_def)
  have "\<exists>st'. on_response absolute_parser fixed_source ?st ?inc' = Call st'"
    using known status redirect_target_SomeD(3,4) [OF target']
    by (simp add: on_response_target [OF target'] follow_redirect_keep)
  with redirect_downgrade_to_GET [OF target', of fixed_source] status
  have keep: "\<exists>st'. on_response absolute_parser fixed_source ?st ?inc' = Call st'
      \<and> outgoing_method (fst (call_send st')) = ''POST''"
    by auto
  from redirect_downgrade_to_GET [OF target, of fixed_source] status
  have down: "\<exists>st'. on_response absolute_parser fixed_source ?st ?inc = Call st'
      \<and> outgoing_method (fst (call_send st')) = ''GET''
      \<and> outgoing_body (fst (call_send st')) = []
      \<and> \<not> headers_has (outgoing_headers (fst (call_send st'))) ''Content-Length''"
    by auto
  from target has down keep show ?thesis by blast
qed

text \<open>
  C6. On a redirect hop that is followed (to \<open>u\<close>) without the downgrade to GET: when
  the current body is not \<open>null\<close> and its content length is unknown, the fetch is
  rejected with \<open>Cannot follow redirect with a streamed body\<close>; otherwise the handler
  calls \<open>_call\<close> again with the body extracted anew from the original body input,
  the method unchanged and the URL \<open>u\<close>.
\<close>

theorem redirect_streamed_body:
  assumes "redirect_target parseURL st inc = Some u"
    and "\<not> (statusCode inc = 303
          \<or> ((statusCode inc = 301 \<or> statusCode inc = 302) \<and> requestOptions_method st = ''POST''))"
  shows "(body (requestBody st) \<noteq> None \<and> contentLength (requestBody st) = None
          \<longrightarrow> on_response parseURL src st inc
                = Reject (Error ''Cannot follow redirect with a streamed body''))
       \<and> (\<not> (body (requestBody st) \<noteq> None \<and> contentLength (requestBody st) = None)
          \<longrightarrow> (\<exists>st'. on_response parseURL src st inc = Call st'
                \<and> requestBody st' = extractBody src (initBody st)
                \<and> initBody st' = initBody st
                \<and> requestOptions_method st' = requestOptions_method st
                \<and> requestUrl st' = u
                \<and> redirects st' = redirects st + 1))"
proof -
  note t = redirect_target_SomeD [OF assms(1)]
  show ?thesis
    by (simp add: on_response_target [OF assms(1)] follow_redirect_keep [OF t(3) t(4) assms(2)])
qed

theorem redirect_streamed_body_witness:
  "redirect_target absolute_parser
      (snd (call_send (example_plan ''POST'' (Some (IsReadable [[1]])) Follow [])))
      (example_incoming 307 [''Location'', ''http://example.com/inspect''])
     = Some \<lparr>protocol = ''http:'', href = ''http://example.com/inspect''\<rparr>
   \<and> on_response absolute_parser fixed_source
        (snd (call_send (example_plan ''POST'' (Some (IsReadable [[1]])) Follow [])))
        (example_incoming 307 [''Location'', ''http://example.com/inspect''])
     = Reject (Error ''Cannot follow redirect with a streamed body'')
   \<and> (\<exists>st'. on_response absolute_parser fixed_source
          (snd (call_send (example_plan ''POST'' (Some (IsString ''a=1'')) Follow [])))
          (example_incoming 307 [''Location'', ''http://example.com/inspect'']) = Call st'
        \<and> requestBody st' = extractBody fixed_source (Some (IsString ''a=1''))
        \<and> requestOptions_method st' = ''POST'')"
proof -
  let ?s1 = "snd (call_send (example_plan ''POST'' (Some (IsReadable [[1]])) Follow []))"
  let ?s2 = "snd (call_send (example_plan ''POST'' (Some (IsString ''a=1'')) Follow []))"
  let ?inc = "example_incoming 307 [''Location'', ''http://example.com/inspect'']"
  have t1: "redirect_target absolute_parser ?s1 ?inc
      = Some \<lparr>protocol = ''http:'', href = ''http://example.com/inspect''\<rparr>"
    by code_simp
  have t2: "redirect_target absolute_parser ?s2 ?inc
      = Some \<lparr>protocol = ''http:'', href = ''http://example.com/inspect''\<rparr>"
    by code_simp
  have nodown: "\<not> (statusCode ?inc = 303
      \<or> ((statusCode ?inc = 301 \<or> statusCode ?inc = 302) \<and> requestOptions_method st = ''POST''))"
    for st
    by (simp add: example_incoming_def)
  have b1: "body (requestBody ?s1) \<noteq> None \<and> contentLength (requestBody ?s1) = None"
    by (simp add: example_plan_def call_send_def Let_def extractBody_def)
  have b2: "\<not> (body (requestBody ?s2) \<noteq> None \<and> contentLength (requestBody ?s2) = None)"
    "initBody ?s2 = Some (IsString ''a=1'')" "requestOptions_method ?s2 = ''POST''"
    by (simp_all add: example_plan_def call_send_def Let_def extractBody_def)
  from redirect_streamed_body [OF t1 nodown, of fixed_source]
    redirect_streamed_body [OF t2 nodown, of fixed_source] t1 b1 b2
  show ?thesis by auto
qed

text \<open>
  C4, as stated: a redirect status without \<open>Location\<close> is delivered as an ordinary
  response under every redirect mode. Under mode \<open>error\<close> the handler rejects before
  it looks at the location.
\<close>

theorem redirect_without_Location_error_mode_counterexample:
  "on_response absolute_parser fixed_source (example_plan ''GET'' None ErrorMode [])
      (example_incoming 301 [''Content-Type'', ''text/plain''])
   = Reject (Error ''URI requested responds with a redirect, redirect mode is set to error'')"
  by code_simp

lemma createResponse_redirect_status:
  "isRedirectCode status \<Longrightarrow>
   createResponse b status text hs u red =
     Inr \<lparr>response_status = status, response_statusText = text,
          response_headers = hs, response_body = b, response_url = u,
          response_redirected = red, response_type = ''default''\<rparr>"
  by (auto simp: createResponse_def isRedirectCode_def)

text \<open>
  C4, amended. For a response with a redirect status and no \<open>Location\<close> header: under
  the modes \<open>follow\<close> and \<open>manual\<close> the fetch resolves with that response, with its
  status, status text and headers (the value of \<open>Content-Encoding\<close> in lower case,
  as for every response to a method other than HEAD), the current URL, and without a
  further request; under the mode \<open>error\<close> the fetch is rejected with
  \<open>URI requested responds with a redirect, redirect mode is set to error\<close>.
\<close>

theorem redirect_without_Location:
  assumes "isRedirectCode (statusCode inc)"
    and "headers_get (headersOfRawHeaders (rawHeaders inc)) ''Location'' = None"
  shows "(redirect st = Follow \<or> redirect st = Manual \<longrightarrow>
           (\<exists>r. on_response parseURL src st inc = Resolve r
             \<and> response_status r = statusCode inc
             \<and> response_statusText r = statusMessage inc
             \<and> response_url r = href (requestUrl st)
             \<and> response_redirected r = (0 < redirects st)
             \<and> headers_get (response_headers r) ''Location'' = None
             \<and> (\<forall>name. toLowerCase name \<noteq> ''content-encoding'' \<longrightarrow>
                  headers_get (response_headers r) name
                    = headers_get (headersOfRawHeaders (rawHeaders inc)) name)
             \<and> headers_get (response_headers r) ''Content-Encoding''
                 = (if requestOptions_method st = ''HEAD''
                    then headers_get (headersOfRawHeaders (rawHeaders inc)) ''Content-Encoding''
                    else map_option toLowerCase
                      (headers_get (headersOfRawHeaders (rawHeaders inc)) ''Content-Encoding''))))
       \<and> (redirect st = ErrorMode \<longrightarrow>
           on_response parseURL src st inc = Reject (Error
             ''URI requested responds with a redirect, redirect mode is set to error''))"
proof (intro conjI impI)
  assume "redirect st = ErrorMode"
  with assms show "on_response parseURL src st inc = Reject (Error
      ''URI requested responds with a redirect, redirect mode is set to error'')"
    by (simp add: on_response_def)
next
  let ?hs = "headersOfRawHeaders (rawHeaders inc)"
  assume "redirect st = Follow \<or> redirect st = Manual"
  then have mode: "redirect st \<noteq> ErrorMode" by auto
  have not_null: "statusCode inc \<noteq> 204" "statusCode inc \<noteq> 304"
    using assms(1) by (auto simp: isRedirectCode_def)
  from assms mode have on: "on_response parseURL src st inc = deliver st inc ?hs"
    by (simp add: on_response_def)
  show "\<exists>r. on_response parseURL src st inc = Resolve r
             \<and> response_status r = statusCode inc
             \<and> response_statusText r = statusMessage inc
             \<and> response_url r = href (requestUrl st)
             \<and> response_redirected r = (0 < redirects st)
             \<and> headers_get (response_headers r) ''Location'' = None
             \<and> (\<forall>name. toLowerCase name \<noteq> ''content-encoding'' \<longrightarrow>
                  headers_get (response_headers r) name = headers_get ?hs name)
             \<and> headers_get (response_headers r) ''Content-Encoding''
                 = (if requestOptions_method st = ''HEAD''
                    then headers_get ?hs ''Content-Encoding''
                    else map_option toLowerCase (headers_get ?hs ''Content-Encoding''))"
  proof (cases "requestOptions_method st = ''HEAD''")
    case True
    with assms show ?thesis
      by (simp add: on deliver_def Let_def createResponse_redirect_status)
  next
    case False
    show ?thesis
    proof (cases "headers_get ?hs ''Content-Encoding''")
      case None
      with False assms not_null show ?thesis
        by (simp add: on deliver_def Let_def createResponse_redirect_status)
    next
      case (Some enc)
      with False assms not_null show ?thesis
        by (simp add: on deliver_def Let_def createResponse_redirect_status
            headers_get_set lower_names)
    qed
  qed
qed

theorem redirect_without_Location_witness:
  "isRedirectCode (statusCode (example_incoming 301 [''Content-Type'', ''text/plain'']))
   \<and> headers_get (headersOfRawHeaders
        (rawHeaders (example_incoming 301 [''Content-Type'', ''text/plain''])))
        ''Location'' = None
   \<and> (\<exists>r. on_response absolute_parser fixed_source (example_plan ''GET'' None Manual [])
          (example_incoming 301 [''Content-Type'', ''text/plain'']) = Resolve r
        \<and> response_status r = 301
        \<and> headers_get (response_headers r) ''content-type'' = Some ''text/plain'')
   \<and> on_response absolute_parser fixed_source (example_plan ''GET'' None ErrorMode [])
          (example_incoming 301 [''Content-Type'', ''text/plain''])
       = Reject (Error
           ''URI requested responds with a redirect, redirect mode is set to error'')"
proof -
  let ?inc = "example_incoming 301 [''Content-Type'', ''text/plain'']"
  have code: "isRedirectCode (statusCode ?inc)"
    by (simp add: example_incoming_def isRedirectCode_def)
  have loc: "headers_get (headersOfRawHeaders (rawHeaders ?inc)) ''Location'' = None"
    by code_simp
  have ct: "headers_get (headersOfRawHeaders (rawHeaders ?inc)) ''content-type''
      = Some ''text/plain''"
    by code_simp
  have modes: "redirect (example_plan ''GET'' None Manual []) = Manual"
    "redirect (example_plan ''GET'' None ErrorMode []) = ErrorMode"
    by (simp_all add: example_plan_def)
  have st: "statusCode ?inc = 301" by (simp add: example_incoming_def)
  have low: "toLowerCase ''content-type'' \<noteq> ''content-encoding''"
    by (simp add: toLowerCase_def lower_char_def upper_letters_def lower_letters_def)
  from redirect_without_Location [OF code loc, of "example_plan ''GET'' None Manual []"
      absolute_parser fixed_source] modes(1) obtain r where
    r: "on_response absolute_parser fixed_source (example_plan ''GET'' None Manual []) ?inc
          = Resolve r"
      "response_status r = statusCode ?inc"
      "\<forall>name. toLowerCase name \<noteq> ''content-encoding'' \<longrightarrow>
          headers_get (response_headers r) name
            = headers_get (headersOfRawHeaders (rawHeaders ?inc)) name"
    by auto
  from r(3) low ct have "headers_get (response_headers r) ''content-type'' = Some ''text/plain''"
    by simp
  with r(1,2) st have ex: "\<exists>r. on_response absolute_parser fixed_source
          (example_plan ''GET'' None Manual []) ?inc = Resolve r
        \<and> response_status r = 301
        \<and> headers_get (response_headers r) ''content-type'' = Some ''text/plain''"
    by auto
  from redirect_without_Location [OF code loc, of "example_plan ''GET'' None ErrorMode []"
      absolute_parser fixed_source] modes(2)
  have "on_response absolute_parser fixed_source (example_plan ''GET'' None ErrorMode []) ?inc
      = Reject (Error
           ''URI requested responds with a redirect, redirect mode is set to error'')"
    by simp
  with code loc ex show ?thesis by blast
qed

section \<open>The redirect loop\<close>

lemma on_response_Call_redirects:
  "on_response parseURL src st inc = Call st' \<Longrightarrow>
   redirects st' = Suc (redirects st) \<and> redirects st' \<le> MAX_REDIRECTS"
  by (auto simp: on_response_def follow_redirect_def deliver_def Let_def
      split: if_splits option.splits sum.splits prod.splits)

text \<open>
  Three exchanges with the example server: a POST of \<open>a=1\<close> redirected by a 302
  arrives as a GET without body; a redirect loop ends with the rejection at the 21st
  redirect; the method \<open>connect\<close> is sent as CONNECT.
\<close>

lemma fetch_POST_redirected_by_302:
  "fetch absolute_parser fixed_source example_server (IsURL ''http://example.com/redirect'')
     (Some \<lparr>init_method = Some ''POST'', init_headers = None,
            init_body = Some (IsString ''a=1''), init_signal = None, init_redirect = None\<rparr>)
   = Resolve \<lparr>response_status = 200, response_statusText = ''OK'',
       response_headers = [(''x-method'', ''GET'')], response_body = IncomingBody [[]],
       response_url = ''http://example.com/inspect'', response_redirected = True,
       response_type = ''default''\<rparr>"
  by code_simp

lemma fetch_redirect_loop:
  "fetch absolute_parser fixed_source example_server (IsURL ''http://example.com/loop'') None
   = Reject (Error ''maximum redirect reached at: http://example.com/loop'')"
  by code_simp

lemma fetch_method_connect_is_sent:
  "fetch absolute_parser fixed_source example_server (IsURL ''http://example.com/inspect'')
     (Some \<lparr>init_method = Some ''connect'', init_headers = None,
            init_body = None, init_signal = None, init_redirect = None\<rparr>)
   = Resolve \<lparr>response_status = 200, response_statusText = ''OK'',
       response_headers = [(''x-method'', ''CONNECT'')], response_body = IncomingBody [[]],
       response_url = ''http://example.com/inspect'', response_redirected = False,
       response_type = ''default''\<rparr>"
  by code_simp

end
